theory Spec2Isabelle
  imports Complex_Main
begin

section \<open>The todo list screen (pages/TodoList.tsx)\<close>

subsection \<open>Data\<close>

text \<open>
  The interface \<^verbatim>\<open>Todo\<close> has the fields \<^verbatim>\<open>id\<close>, \<^verbatim>\<open>text\<close> and \<^verbatim>\<open>completed\<close>.
  The first two names are taken in Isabelle, so every field carries the suffix \<open>_todo\<close>.
  An id is a JavaScript number; the model covers the integer-valued ones, which is what
  \<^verbatim>\<open>Date.now()\<close> returns.
\<close>

record Todo =
  id_todo :: int
  text_todo :: string
  completed_todo :: bool

text \<open>
  The interface \<^verbatim>\<open>TodoList\<close> is \<^verbatim>\<open>{ [id: number]: Todo | undefined }\<close>, an ordinary
  JavaScript object. It is modelled by its own properties in the order of their creation;
  the value \<open>None\<close> is \<^verbatim>\<open>undefined\<close> stored under a key that exists.
\<close>

type_synonym TodoList = "(int \<times> Todo option) list"

text \<open>The only exception the screen's code can raise.\<close>

datatype exn = TypeError

subsection \<open>Property access on the object\<close>

text \<open>
  \<^verbatim>\<open>obj[k]\<close>: the value stored under \<open>k\<close>, and \<^verbatim>\<open>undefined\<close> as well when the object has
  no such key.
\<close>

fun get_prop :: "TodoList \<Rightarrow> int \<Rightarrow> Todo option" where
  "get_prop [] k = None"
| "get_prop ((k', v) # ps) k = (if k' = k then v else get_prop ps k)"

text \<open>
  \<^verbatim>\<open>obj[k] = v\<close>: an existing key keeps its place and takes the new value, a new key is
  created behind all the others.
\<close>

fun set_prop :: "TodoList \<Rightarrow> int \<Rightarrow> Todo option \<Rightarrow> TodoList" where
  "set_prop [] k v = [(k, v)]"
| "set_prop ((k', v') # ps) k v =
     (if k' = k then (k, v) # ps else (k', v') # set_prop ps k v)"

text \<open>
  \<^verbatim>\<open>Object.values(obj)\<close> walks the own keys in the order of the language standard: first
  the array indices (the integers from 0 to \<open>2\<^sup>3\<^sup>2 - 2\<close>) in ascending order, then every
  other key in the order of creation. A reading of the millisecond clock has been beyond
  the array indices since February 1970.
\<close>

definition is_array_index :: "int \<Rightarrow> bool" where
  "is_array_index k = (0 \<le> k \<and> k \<le> 4294967294)"

definition Object_values :: "TodoList \<Rightarrow> Todo option list" where
  "Object_values obj =
     map snd (sort_key fst (filter (\<lambda>p. is_array_index (fst p)) obj)
              @ filter (\<lambda>p. \<not> is_array_index (fst p)) obj)"

subsection \<open>Strings\<close>

text \<open>
  A \<^typ>\<open>char\<close> stands for one code unit below 256. \<^verbatim>\<open>String.prototype.trim\<close> removes
  white space and line terminators from both ends; these are the ones below 256: tab,
  line feed, vertical tab, form feed, carriage return, space and the no-break space.
\<close>

definition is_white_space :: "char \<Rightarrow> bool" where
  "is_white_space c =
     (c \<in> set [CHR 0x09, CHR 0x0A, CHR 0x0B, CHR 0x0C, CHR 0x0D, CHR 0x20, CHR 0xA0])"

definition trim :: "string \<Rightarrow> string" where
  "trim s = rev (dropWhile is_white_space (rev (dropWhile is_white_space s)))"

subsection \<open>The component's state\<close>

text \<open>
  \<^verbatim>\<open>useState<TodoList>({})\<close> holds a reference to an object, and React compares
  references when a setter is called. The state therefore has a store of objects by
  address, the reference the \<^verbatim>\<open>todoList\<close> cell holds, and the text of the input field.
  A \<^verbatim>\<open>Todo\<close> object is referenced from its store object only, so it is kept inside it.
\<close>

type_synonym ref = nat

record TodoListState =
  heap :: "ref \<Rightarrow> TodoList"
  todoList :: ref
  newTodo :: string

text \<open>The first render: one fresh empty object, at address 0, and an empty input field.\<close>

definition mount_TodoList :: TodoListState where
  "mount_TodoList = \<lparr>heap = (\<lambda>_. []), todoList = 0, newTodo = ''''\<rparr>"

text \<open>The input field's \<^verbatim>\<open>onChange\<close> handler: \<^verbatim>\<open>setNewTodo(e.target.value)\<close>.\<close>

definition onChange :: "string \<Rightarrow> TodoListState \<Rightarrow> TodoListState" where
  "onChange v s = s\<lparr>newTodo := v\<rparr>"

subsection \<open>The three handlers\<close>

text \<open>
  \<^verbatim>\<open>addTodo\<close>; the argument \<open>now\<close> is what \<^verbatim>\<open>Date.now()\<close> returns during the call.
  \<^verbatim>\<open>e.preventDefault()\<close> acts on the browser's event only and is left out. The
  assignment \<^verbatim>\<open>todoList[newId] = {...}\<close> writes into the object the cell refers to, and
  \<^verbatim>\<open>setTodos(todoList)\<close> stores that same reference.
\<close>

definition addTodo :: "int \<Rightarrow> TodoListState \<Rightarrow> TodoListState" where
  "addTodo now s =
     (if trim (newTodo s) = '''' then s
      else
        let newId = now;
            r = todoList s;
            h = (heap s)(r := set_prop (heap s r) newId
                   (Some \<lparr>id_todo = newId, text_todo = trim (newTodo s),
                          completed_todo = False\<rparr>))
        in s\<lparr>heap := h, todoList := r, newTodo := ''''\<rparr>)"

text \<open>
  \<^verbatim>\<open>toggleTodo\<close>: \<^verbatim>\<open>todoList[id]!.completed = !todoList[id]!.completed\<close>. The \<^verbatim>\<open>!\<close> of
  TypeScript is erased at run time; reading \<^verbatim>\<open>completed\<close> from \<^verbatim>\<open>undefined\<close> raises.
\<close>

definition toggleTodo :: "int \<Rightarrow> TodoListState \<Rightarrow> exn + TodoListState" where
  "toggleTodo k s =
     (let r = todoList s in
      case get_prop (heap s r) k of
        None \<Rightarrow> Inl TypeError
      | Some t \<Rightarrow>
          Inr (s\<lparr>heap := (heap s)(r := set_prop (heap s r) k
                     (Some (t\<lparr>completed_todo := \<not> completed_todo t\<rparr>))),
                 todoList := r\<rparr>))"

text \<open>\<^verbatim>\<open>deleteTodo\<close>: \<^verbatim>\<open>todoList[id] = undefined\<close>, then \<^verbatim>\<open>setTodos(todoList)\<close>.\<close>

definition deleteTodo :: "int \<Rightarrow> TodoListState \<Rightarrow> TodoListState" where
  "deleteTodo k s =
     (let r = todoList s in
      s\<lparr>heap := (heap s)(r := set_prop (heap s r) k None), todoList := r\<rparr>)"

subsection \<open>What the screen reads from the state\<close>

text \<open>The object the \<^verbatim>\<open>todoList\<close> cell refers to.\<close>

definition store :: "TodoListState \<Rightarrow> TodoList" where
  "store s = heap s (todoList s)"

text \<open>The entries the screen lists, \<^verbatim>\<open>Object.values(todoList)\<close>, and their number.\<close>

definition list_todos :: "TodoListState \<Rightarrow> Todo option list" where
  "list_todos s = Object_values (store s)"

definition size_todos :: "TodoListState \<Rightarrow> nat" where
  "size_todos s = length (list_todos s)"

text \<open>
  The list items of the render: each entry is read as \<^verbatim>\<open>todo.id\<close>, \<^verbatim>\<open>todo.completed\<close>
  and \<^verbatim>\<open>todo.text\<close>, which raises on \<^verbatim>\<open>undefined\<close>.
\<close>

fun render_items :: "Todo option list \<Rightarrow> exn + (int \<times> bool \<times> string) list" where
  "render_items [] = Inr []"
| "render_items (None # ts) = Inl TypeError"
| "render_items (Some t # ts) =
     (case render_items ts of
        Inl e \<Rightarrow> Inl e
      | Inr xs \<Rightarrow> Inr ((id_todo t, completed_todo t, text_todo t) # xs))"

subsection \<open>Runs of the screen\<close>

text \<open>
  A run of submissions: for each pair the user types the text \<open>v\<close> and submits the form
  while the clock reads \<open>now\<close>. The result is the list of the ids that \<^verbatim>\<open>addTodo\<close>
  gave to the records it made (its \<^verbatim>\<open>newId\<close>, when the text passed the guard), and the
  state after the last submission.
\<close>

fun addTodos :: "(string \<times> int) list \<Rightarrow> TodoListState \<Rightarrow> int list \<times> TodoListState" where
  "addTodos [] s = ([], s)"
| "addTodos ((v, now) # evs) s =
     (let s1 = onChange v s;
          rest = addTodos evs (addTodo now s1)
      in (if trim (newTodo s1) = '''' then fst rest else now # fst rest, snd rest))"

text \<open>The id \<open>i\<close> names a record of the store: \<^verbatim>\<open>todoList[i]\<close> is a record whose id is \<open>i\<close>.\<close>

definition names_record :: "TodoListState \<Rightarrow> int \<Rightarrow> bool" where
  "names_record s i = (case get_prop (store s) i of None \<Rightarrow> False | Some t \<Rightarrow> id_todo t = i)"

text \<open>
  The state used in the examples: the user has typed \<^verbatim>\<open>Buy milk\<close> into the fresh screen
  and submitted it at the clock reading 1700000000000 (14 November 2023).
\<close>

definition one_todo :: TodoListState where
  "one_todo = addTodo 1700000000000 (onChange ''Buy milk'' mount_TodoList)"

section \<open>The profile screen (pages/UserProfile.tsx)\<close>

subsection \<open>Data\<close>

text \<open>
  The interface \<^verbatim>\<open>User\<close>, with its nested \<^verbatim>\<open>company\<close>. Both have a field \<^verbatim>\<open>name\<close>,
  and \<^verbatim>\<open>id\<close> is taken, so these three carry a suffix.
\<close>

record Company =
  name_company :: string
  catchPhrase :: string

record User =
  id_user :: int
  name_user :: string
  email :: string
  phone :: string
  website :: string
  company :: Company

text \<open>The three \<^verbatim>\<open>useState\<close> cells of the component; \<open>None\<close> is \<^verbatim>\<open>null\<close>.\<close>

record UserProfileState =
  user :: "User option"
  loading :: bool
  error :: "string option"

text \<open>The first render: \<^verbatim>\<open>useState(null)\<close>, \<^verbatim>\<open>useState(true)\<close>, \<^verbatim>\<open>useState(null)\<close>.\<close>

definition mount_UserProfile :: UserProfileState where
  "mount_UserProfile = \<lparr>user = None, loading = True, error = None\<rparr>"

subsection \<open>The three segments of \<^verbatim>\<open>fetchUser\<close>\<close>

text \<open>
  \<^verbatim>\<open>fetchUser\<close> is an async function with one \<^verbatim>\<open>await\<close>. Up to the await it runs
  \<^verbatim>\<open>setLoading(true)\<close> and issues the request. When the request is fulfilled, the rest
  of the \<^verbatim>\<open>try\<close> block runs, \<^verbatim>\<open>setUser(response.data)\<close> and \<^verbatim>\<open>setError(null)\<close>; the
  data is stored as it comes, so \<open>d\<close> is a record or \<^verbatim>\<open>null\<close>, the two values the cell
  is typed for. When the request is rejected, the \<^verbatim>\<open>catch\<close> block runs,
  \<^verbatim>\<open>setError('Failed to fetch user data')\<close>, and \<^verbatim>\<open>user\<close> stays as it was. Both end in
  the \<^verbatim>\<open>finally\<close> block, \<^verbatim>\<open>setLoading(false)\<close>. None of the segments reads a cell.
\<close>

definition fetchUser_begin :: "UserProfileState \<Rightarrow> UserProfileState" where
  "fetchUser_begin s = s\<lparr>loading := True\<rparr>"

definition fetchUser_fulfilled :: "User option \<Rightarrow> UserProfileState \<Rightarrow> UserProfileState" where
  "fetchUser_fulfilled d s = (s\<lparr>user := d, error := None\<rparr>)\<lparr>loading := False\<rparr>"

definition fetchUser_rejected :: "UserProfileState \<Rightarrow> UserProfileState" where
  "fetchUser_rejected s =
     (s\<lparr>error := Some ''Failed to fetch user data''\<rparr>)\<lparr>loading := False\<rparr>"

subsection \<open>Runs of the screen\<close>

text \<open>
  What can happen to the mounted component: the effect runs and calls \<^verbatim>\<open>fetchUser\<close>, a
  request is fulfilled with some data, a request is rejected. The component checks
  none of this, and neither does the model: every event applies to every state, in any
  order. The button \<^verbatim>\<open>Try Again\<close> reloads the page, which starts a new run from the
  first render.
\<close>

datatype event = Effect | Fulfil "User option" | Reject

fun fire :: "event \<Rightarrow> UserProfileState \<Rightarrow> UserProfileState" where
  "fire Effect s = fetchUser_begin s"
| "fire (Fulfil d) s = fetchUser_fulfilled d s"
| "fire Reject s = fetchUser_rejected s"

fun run :: "event list \<Rightarrow> UserProfileState \<Rightarrow> UserProfileState" where
  "run [] s = s"
| "run (e # es) s = run es (fire e s)"

text \<open>
  The runs of one fetch per mount: the effect, with its dependency list \<^verbatim>\<open>[]\<close>, runs
  once after the first render, and the request it issues settles once. These are the
  runs of a production build; in a development build under React's strict mode the
  effect runs twice and two requests are under way.
\<close>

fun one_fetch :: "event list \<Rightarrow> bool" where
  "one_fetch [] = True"
| "one_fetch [Effect] = True"
| "one_fetch [Effect, Fulfil d] = True"
| "one_fetch [Effect, Reject] = True"
| "one_fetch _ = False"

subsection \<open>The status the screen shows\<close>

text \<open>
  The render tests \<^verbatim>\<open>if (loading)\<close> first and \<^verbatim>\<open>if (error)\<close> second, and shows the
  profile when \<^verbatim>\<open>user\<close> is not null. A string is truthy when it is not empty. A state
  in which all three tests fail shows neither a spinner nor a message nor a profile.
\<close>

datatype status = Idle | Loading | Success | Error

definition truthy :: "string option \<Rightarrow> bool" where
  "truthy e = (case e of None \<Rightarrow> False | Some m \<Rightarrow> m \<noteq> '''')"

definition status :: "UserProfileState \<Rightarrow> status" where
  "status s =
     (if loading s then Loading
      else if truthy (error s) then Error
      else if user s \<noteq> None then Success
      else Idle)"

text \<open>The record the data source returns for the fixed identifier 1.\<close>

definition leanne :: User where
  "leanne = \<lparr>id_user = 1, name_user = ''Leanne Graham'', email = ''Sincere@april.biz'',
     phone = ''1-770-736-8031 x56442'', website = ''hildegard.org'',
     company = \<lparr>name_company = ''Romaguera-Crona'',
       catchPhrase = ''Multi-layered client-server neural-net''\<rparr>\<rparr>"

section \<open>The counter screen (pages/Counter.tsx)\<close>

text \<open>
  Both cells hold a JavaScript number. \<^verbatim>\<open>Number(e.target.value)\<close> of the step field can
  be any decimal fraction the user types, so the cells are modelled as real numbers; the
  sums and differences of \<^verbatim>\<open>increment\<close> and \<^verbatim>\<open>decrement\<close> are exact here, where the
  program rounds to a double. The calls of \<^verbatim>\<open>console.log\<close> are left out.
\<close>

record CounterState =
  count :: real
  step :: real

text \<open>The first render: \<^verbatim>\<open>useState(0)\<close> and \<^verbatim>\<open>useState(5)\<close>.\<close>

definition mount_Counter :: CounterState where
  "mount_Counter = \<lparr>count = 0, step = 5\<rparr>"

definition increment :: "CounterState \<Rightarrow> CounterState" where
  "increment s = s\<lparr>count := count s + step s\<rparr>"

definition decrement :: "CounterState \<Rightarrow> CounterState" where
  "decrement s = s\<lparr>count := count s - step s\<rparr>"

text \<open>
  \<^verbatim>\<open>reset = (all: boolean = false) => ...\<close>: the argument may be left out, which is
  \<open>None\<close> here, and then takes the default.
\<close>

definition reset :: "bool option \<Rightarrow> CounterState \<Rightarrow> CounterState" where
  "reset arg s =
     (let all = (case arg of None \<Rightarrow> False | Some b \<Rightarrow> b);
          s1 = s\<lparr>count := 0\<rparr>
      in if all then s1\<lparr>step := 1\<rparr> else s1)"

definition handleStepChange :: "real \<Rightarrow> CounterState \<Rightarrow> CounterState" where
  "handleStepChange v s = s\<lparr>step := (if v > 0 then v else 1)\<rparr>"

text \<open>
  What the user can do on the screen: the four buttons, in the order of the source
  (\<^verbatim>\<open>Reset\<close> calls \<^verbatim>\<open>reset()\<close>, \<^verbatim>\<open>Reset All\<close> calls \<^verbatim>\<open>reset(true)\<close>), and the step
  field.
\<close>

datatype action = Decrement | Reset | Increment | ResetAll | StepInput real

fun click :: "action \<Rightarrow> CounterState \<Rightarrow> CounterState" where
  "click Decrement s = decrement s"
| "click Reset s = reset None s"
| "click Increment s = increment s"
| "click ResetAll s = reset (Some True) s"
| "click (StepInput v) s = handleStepChange v s"

fun clicks :: "action list \<Rightarrow> CounterState \<Rightarrow> CounterState" where
  "clicks [] s = s"
| "clicks (a # as) s = clicks as (click a s)"

text \<open>An action that enters no fraction into the step field.\<close>

fun whole_number :: "action \<Rightarrow> bool" where
  "whole_number (StepInput v) = (v \<in> \<int>)"
| "whole_number _ = True"

section \<open>Properties of the todo list screen\<close>

subsection \<open>The object\<close>

lemma set_prop_same: "get_prop obj k = Some t \<Longrightarrow> set_prop obj k (Some t) = obj"
  by (induction obj) (auto split: if_splits)

lemma set_prop_twice: "set_prop (set_prop obj k v) k w = set_prop obj k w"
  by (induction obj) auto

lemma get_set_prop: "get_prop (set_prop obj k v) k = v"
  by (induction obj) auto

lemma get_set_prop_other: "i \<noteq> k \<Longrightarrow> get_prop (set_prop obj k v) i = get_prop obj i"
  by (induction obj) auto

lemma set_prop_new: "k \<notin> fst ` set obj \<Longrightarrow> set_prop obj k v = obj @ [(k, v)]"
  by (induction obj) auto

lemma set_prop_member: "(k, v) \<in> set (set_prop obj k v)"
  by (induction obj) auto

lemma length_Object_values: "length (Object_values obj) = length obj"
  by (simp add: Object_values_def sum_length_filter_compl)

lemma set_Object_values: "set (Object_values obj) = snd ` set obj"
  by (auto simp: Object_values_def)

lemma Object_values_snoc:
  "\<not> is_array_index k \<Longrightarrow> Object_values (obj @ [(k, v)]) = Object_values obj @ [v]"
  by (simp add: Object_values_def)

subsection \<open>The handlers, for every state\<close>

text \<open>Every handler leaves in the cell the reference it found there.\<close>

lemma todoList_addTodo: "todoList (addTodo now s) = todoList s"
  by (simp add: addTodo_def Let_def)

lemma todoList_deleteTodo: "todoList (deleteTodo k s) = todoList s"
  by (simp add: deleteTodo_def Let_def)

lemma todoList_toggleTodo: "toggleTodo k s = Inr s' \<Longrightarrow> todoList s' = todoList s"
  by (auto simp: toggleTodo_def Let_def split: option.splits)

lemma store_addTodo:
  "trim (newTodo s) \<noteq> '''' \<Longrightarrow>
   store (addTodo now s) = set_prop (store s) now
     (Some \<lparr>id_todo = now, text_todo = trim (newTodo s), completed_todo = False\<rparr>)"
  by (simp add: addTodo_def store_def Let_def)

lemma store_deleteTodo: "store (deleteTodo k s) = set_prop (store s) k None"
  by (simp add: deleteTodo_def store_def Let_def)

text \<open>\<^verbatim>\<open>deleteTodo\<close> of an id the object has no key for creates the key.\<close>

lemma deleteTodo_absent_adds_key:
  "k \<notin> fst ` set (store s) \<Longrightarrow> store (deleteTodo k s) = store s @ [(k, None)]"
  by (simp add: store_deleteTodo set_prop_new)

text \<open>After a \<^verbatim>\<open>deleteTodo\<close>, whatever the id, the screen's list has an undefined entry.\<close>

lemma deleteTodo_undefined_entry: "None \<in> set (list_todos (deleteTodo k s))"
proof -
  have "(k, None) \<in> set (store (deleteTodo k s))"
    by (simp add: store_deleteTodo set_prop_member)
  then have "snd (k, None) \<in> snd ` set (store (deleteTodo k s))"
    by (rule imageI)
  then show ?thesis
    by (simp add: list_todos_def set_Object_values)
qed

text \<open>\<^verbatim>\<open>toggleTodo\<close> raises for every id under which the object holds no record.\<close>

lemma toggleTodo_undefined: "get_prop (store s) k = None \<Longrightarrow> toggleTodo k s = Inl TypeError"
  by (simp add: toggleTodo_def store_def Let_def)

lemma toggleTodo_after_deleteTodo: "toggleTodo k (deleteTodo k s) = Inl TypeError"
  by (simp add: toggleTodo_undefined store_deleteTodo get_set_prop)

subsection \<open>Runs of submissions\<close>

lemma addTodos_ids:
  "fst (addTodos evs s) = map snd (filter (\<lambda>(v, now). trim v \<noteq> '''') evs)"
  by (induction evs arbitrary: s) (auto simp: Let_def onChange_def)

lemma names_record_addTodo: "names_record s i \<Longrightarrow> names_record (addTodo now s) i"
  by (cases "i = now")
     (auto simp: names_record_def addTodo_def store_def Let_def get_set_prop get_set_prop_other)

lemma names_record_new: "trim (newTodo s) \<noteq> '''' \<Longrightarrow> names_record (addTodo now s) now"
  by (simp add: names_record_def store_addTodo get_set_prop)

lemma names_record_addTodos:
  "i \<in> set (fst (addTodos evs s)) \<or> names_record s i \<Longrightarrow>
   names_record (snd (addTodos evs s)) i"
proof (induction evs arbitrary: s)
  case Nil
  then show ?case by simp
next
  case (Cons e evs)
  obtain v now where e: "e = (v, now)" by (cases e)
  let ?s1 = "addTodo now (onChange v s)"
  have snd_eq: "snd (addTodos (e # evs) s) = snd (addTodos evs ?s1)"
    by (simp add: e Let_def)
  have "i \<in> set (fst (addTodos evs ?s1)) \<or> names_record ?s1 i"
  proof (cases "i \<in> set (fst (addTodos evs ?s1))")
    case True
    then show ?thesis by simp
  next
    case False
    from Cons.prems show ?thesis
    proof
      assume "i \<in> set (fst (addTodos (e # evs) s))"
      with False have "i = now \<and> trim v \<noteq> ''''"
        by (auto simp: e Let_def onChange_def split: if_splits)
      then show ?thesis
        using names_record_new [of "onChange v s" now] by (simp add: onChange_def)
    next
      assume "names_record s i"
      then have "names_record (onChange v s) i"
        by (simp add: names_record_def store_def onChange_def)
      then show ?thesis
        by (simp add: names_record_addTodo)
    qed
  qed
  then show ?case
    using Cons.IH [of ?s1] snd_eq by simp
qed

subsection \<open>The claims about the store\<close>

text \<open>
  C1. The code at the input of the claim: on the state in which \<^verbatim>\<open>Buy milk\<close> has been
  typed, \<^verbatim>\<open>addTodo\<close> leaves in the cell the reference it found, and the object at that
  reference, empty before, now holds the record. On the state it returns, \<^verbatim>\<open>toggleTodo\<close>
  and \<^verbatim>\<open>deleteTodo\<close> of the record's id do the same: the reference stays, and the object
  behind it is overwritten. No handler returns a new identity, and each changes the
  content of the one it was given.
\<close>

theorem handlers_mutate_in_place:
  "todoList one_todo = todoList (onChange ''Buy milk'' mount_TodoList)
 \<and> heap (onChange ''Buy milk'' mount_TodoList) (todoList (onChange ''Buy milk'' mount_TodoList))
     = []
 \<and> heap one_todo (todoList (onChange ''Buy milk'' mount_TodoList))
     = [(1700000000000,
         Some \<lparr>id_todo = 1700000000000, text_todo = ''Buy milk'', completed_todo = False\<rparr>)]
 \<and> (case toggleTodo 1700000000000 one_todo of
       Inl e \<Rightarrow> False
     | Inr s' \<Rightarrow>
         todoList s' = todoList one_todo
       \<and> heap s' (todoList one_todo)
           = [(1700000000000,
               Some \<lparr>id_todo = 1700000000000, text_todo = ''Buy milk'', completed_todo = True\<rparr>)])
 \<and> todoList (deleteTodo 1700000000000 one_todo) = todoList one_todo
 \<and> heap (deleteTodo 1700000000000 one_todo) (todoList one_todo) = [(1700000000000, None)]"
  by (simp add: one_todo_def addTodo_def toggleTodo_def deleteTodo_def onChange_def
      mount_TodoList_def trim_def is_white_space_def Let_def)

text \<open>
  C2. The code at the input of the claim: after \<^verbatim>\<open>deleteTodo\<close> of the only record, the
  list the screen walks still has one entry, the key of the deleted record with the
  value \<^verbatim>\<open>undefined\<close>, and the render, which reads \<^verbatim>\<open>todo.id\<close> of every entry, raises
  on it.
\<close>

theorem deleteTodo_leaves_tombstone:
  "list_todos (deleteTodo 1700000000000 one_todo) = [None]
 \<and> size_todos (deleteTodo 1700000000000 one_todo) = 1
 \<and> render_items (list_todos (deleteTodo 1700000000000 one_todo)) = Inl TypeError"
  by (simp add: one_todo_def addTodo_def deleteTodo_def onChange_def mount_TodoList_def
      trim_def is_white_space_def store_def list_todos_def size_todos_def Object_values_def
      is_array_index_def Let_def)

text \<open>
  C4. The code at the input of the claim: \<^verbatim>\<open>toggleTodo\<close> of the id of a record that
  \<^verbatim>\<open>deleteTodo\<close> has removed raises a TypeError instead of returning the store, and so
  does \<^verbatim>\<open>toggleTodo\<close> of an id the store has never held.
\<close>

theorem toggleTodo_absent_raises:
  "toggleTodo 1700000000000 (deleteTodo 1700000000000 one_todo) = Inl TypeError
 \<and> toggleTodo 1700000000000 mount_TodoList = Inl TypeError"
  by (simp add: one_todo_def addTodo_def toggleTodo_def deleteTodo_def onChange_def
      mount_TodoList_def trim_def is_white_space_def Let_def)

text \<open>
  C3, as stated, fails: two submissions within the same millisecond are given the same
  id.
\<close>

theorem addTodos_same_tick_counterexample:
  "\<not> distinct (fst (addTodos [(''Buy milk'', 1700000000000), (''Walk dog'', 1700000000000)]
                    mount_TodoList))"
  by (simp add: onChange_def Let_def trim_def is_white_space_def)

text \<open>
  C3, amended. The id of a created record is the clock reading of its submission. For
  every run of submissions in which the readings of the submissions that create a record
  are pairwise distinct, the ids assigned are pairwise distinct, and each of them names a
  record of the final store.
\<close>

theorem addTodos_ids_distinct:
  assumes "distinct (map snd (filter (\<lambda>(v, now). trim v \<noteq> '''') evs))"
  shows "distinct (fst (addTodos evs s))
       \<and> (\<forall>i \<in> set (fst (addTodos evs s)). names_record (snd (addTodos evs s)) i)"
  using assms by (simp add: addTodos_ids names_record_addTodos)

theorem addTodos_ids_distinct_witness:
  "distinct (fst (addTodos [(''Buy milk'', 1700000000000), (''  '', 1700000000000),
                            (''Walk dog'', 1700000000001)] mount_TodoList))
 \<and> names_record (snd (addTodos [(''Buy milk'', 1700000000000), (''  '', 1700000000000),
                                 (''Walk dog'', 1700000000001)] mount_TodoList)) 1700000000000
 \<and> names_record (snd (addTodos [(''Buy milk'', 1700000000000), (''  '', 1700000000000),
                                 (''Walk dog'', 1700000000001)] mount_TodoList)) 1700000000001"
proof -
  let ?evs = "[(''Buy milk'', 1700000000000::int), (''  '', 1700000000000),
               (''Walk dog'', 1700000000001)]"
  have ids: "fst (addTodos ?evs mount_TodoList) = [1700000000000, 1700000000001]"
    by (simp add: onChange_def Let_def trim_def is_white_space_def)
  have clock: "distinct (map snd (filter (\<lambda>(v, now). trim v \<noteq> '''') ?evs))"
    by (simp add: trim_def is_white_space_def)
  from addTodos_ids_distinct [OF clock, of mount_TodoList] show ?thesis
    by (simp add: ids del: addTodos.simps)
qed

text \<open>
  C7, as stated, fails: the text \<^verbatim>\<open>Walk dog\<close> is not blank, and submitting it in the
  millisecond in which \<^verbatim>\<open>Buy milk\<close> was submitted leaves the size of the store at 1.
\<close>

theorem addTodo_same_tick_counterexample:
  "trim (newTodo (onChange ''Walk dog'' one_todo)) \<noteq> ''''
 \<and> size_todos (onChange ''Walk dog'' one_todo) = 1
 \<and> size_todos (addTodo 1700000000000 (onChange ''Walk dog'' one_todo)) = 1"
  by (simp add: one_todo_def addTodo_def onChange_def mount_TodoList_def trim_def
      is_white_space_def store_def list_todos_def size_todos_def Object_values_def
      is_array_index_def Let_def)

text \<open>
  C7, amended. When the trimmed text is empty, \<^verbatim>\<open>addTodo\<close> returns the state as it is.
  Otherwise, when the clock reading is not yet a key of the store, the store gains as its
  last property, in the order of creation, the record with the reading as id, the trimmed
  text and \<open>completed\<close> false, and its size grows by one; when moreover the reading is
  beyond the array indices, as every reading since February 1970 is, that record is the
  last entry of the list the screen shows.
\<close>

theorem addTodo_appends_record:
  "(trim (newTodo s) = '''' \<longrightarrow> addTodo now s = s)
 \<and> (trim (newTodo s) \<noteq> '''' \<and> now \<notin> fst ` set (store s) \<longrightarrow>
      store (addTodo now s) = store s @ [(now,
        Some \<lparr>id_todo = now, text_todo = trim (newTodo s), completed_todo = False\<rparr>)]
    \<and> size_todos (addTodo now s) = size_todos s + 1
    \<and> (\<not> is_array_index now \<longrightarrow>
         list_todos (addTodo now s) = list_todos s @
           [Some \<lparr>id_todo = now, text_todo = trim (newTodo s), completed_todo = False\<rparr>]))"
proof -
  have blank: "trim (newTodo s) = '''' \<longrightarrow> addTodo now s = s"
    by (simp add: addTodo_def)
  have fresh: "store (addTodo now s) = store s @ [(now,
        Some \<lparr>id_todo = now, text_todo = trim (newTodo s), completed_todo = False\<rparr>)]"
    if "trim (newTodo s) \<noteq> ''''" and "now \<notin> fst ` set (store s)"
    using that by (simp add: store_addTodo set_prop_new)
  show ?thesis
    using blank fresh
    by (simp add: size_todos_def list_todos_def length_Object_values Object_values_snoc)
qed

text \<open>
  The witness is scenario A, with blanks around the text, and a submission of blanks
  only.
\<close>

theorem addTodo_appends_record_witness:
  "addTodo 1700000000000 (onChange ''   '' mount_TodoList) = onChange ''   '' mount_TodoList
 \<and> size_todos (onChange ''  Buy milk '' mount_TodoList) = 0
 \<and> size_todos (addTodo 1700000000000 (onChange ''  Buy milk '' mount_TodoList)) = 1
 \<and> list_todos (addTodo 1700000000000 (onChange ''  Buy milk '' mount_TodoList))
     = [Some \<lparr>id_todo = 1700000000000, text_todo = ''Buy milk'', completed_todo = False\<rparr>]"
proof -
  have a: "trim (newTodo (onChange ''   '' mount_TodoList)) = ''''"
    by (simp add: onChange_def trim_def is_white_space_def)
  have b: "trim (newTodo (onChange ''  Buy milk '' mount_TodoList)) = ''Buy milk''"
    by (simp add: onChange_def trim_def is_white_space_def)
  have c: "store (onChange ''  Buy milk '' mount_TodoList) = []"
    "list_todos (onChange ''  Buy milk '' mount_TodoList) = []"
    by (simp_all add: onChange_def mount_TodoList_def store_def list_todos_def
        Object_values_def)
  have d: "\<not> is_array_index 1700000000000"
    by (simp add: is_array_index_def)
  show ?thesis
    using addTodo_appends_record [of "onChange ''   '' mount_TodoList" 1700000000000]
      addTodo_appends_record [of "onChange ''  Buy milk '' mount_TodoList" 1700000000000]
      a b c d
    by (simp add: size_todos_def)
qed

text \<open>
  C8. When the id \<open>k\<close> names a record of the store, toggling \<open>k\<close> twice succeeds both
  times and gives back the state it started from: the record has its first
  \<open>completed\<close> value again and nothing else has changed. In between, the record's
  \<open>completed\<close> value is the opposite one.
\<close>

theorem toggleTodo_involution:
  assumes "get_prop (store s) k = Some t"
  shows "\<exists>s'. toggleTodo k s = Inr s'
             \<and> get_prop (store s') k = Some (t\<lparr>completed_todo := \<not> completed_todo t\<rparr>)
             \<and> toggleTodo k s' = Inr s"
proof -
  let ?r = "todoList s"
  let ?t' = "t\<lparr>completed_todo := \<not> completed_todo t\<rparr>"
  let ?s' = "s\<lparr>heap := (heap s)(?r := set_prop (heap s ?r) k (Some ?t')), todoList := ?r\<rparr>"
  from assms have g: "get_prop (heap s ?r) k = Some t"
    by (simp add: store_def)
  have first: "toggleTodo k s = Inr ?s'"
    using g by (simp add: toggleTodo_def Let_def)
  have mid: "get_prop (store ?s') k = Some ?t'"
    by (simp add: store_def get_set_prop)
  have "set_prop (set_prop (heap s ?r) k (Some ?t')) k (Some t) = heap s ?r"
    using g by (simp add: set_prop_twice set_prop_same)
  then have second: "toggleTodo k ?s' = Inr s"
    by (simp add: toggleTodo_def Let_def get_set_prop)
  from first mid second show ?thesis
    by blast
qed

theorem toggleTodo_involution_witness:
  "\<exists>s'. toggleTodo 1700000000000 one_todo = Inr s'
      \<and> get_prop (store s') 1700000000000
          = Some \<lparr>id_todo = 1700000000000, text_todo = ''Buy milk'', completed_todo = True\<rparr>
      \<and> toggleTodo 1700000000000 s' = Inr one_todo"
proof -
  have "get_prop (store one_todo) 1700000000000
        = Some \<lparr>id_todo = 1700000000000, text_todo = ''Buy milk'', completed_todo = False\<rparr>"
    by (simp add: one_todo_def store_def addTodo_def Let_def onChange_def mount_TodoList_def
        trim_def is_white_space_def)
  from toggleTodo_involution [OF this] show ?thesis
    by simp
qed

section \<open>Properties of the profile screen\<close>

lemma one_fetch_cases:
  "one_fetch es \<Longrightarrow>
   es = [] \<or> es = [Effect] \<or> (\<exists>d. es = [Effect, Fulfil d]) \<or> es = [Effect, Reject]"
  by (induction es rule: one_fetch.induct) auto

lemma one_fetch_snoc:
  "one_fetch (es @ [e]) \<Longrightarrow> (es = [] \<and> e = Effect) \<or> (es = [Effect] \<and> e \<noteq> Effect)"
  by (drule one_fetch_cases) (auto simp: append_eq_Cons_conv)

text \<open>The segments, on any state.\<close>

lemma status_fetchUser_begin: "status (fetchUser_begin s) = Loading"
  by (simp add: status_def fetchUser_begin_def)

lemma status_fetchUser_rejected: "status (fetchUser_rejected s) = Error"
  by (simp add: status_def truthy_def fetchUser_rejected_def)

lemma user_fetchUser_rejected: "user (fetchUser_rejected s) = user s"
  by (simp add: fetchUser_rejected_def)

text \<open>
  C5, as stated, fails: the segments of \<^verbatim>\<open>fetchUser\<close> test no status. When the effect
  has run twice and the first request has been fulfilled, the status is success; the
  rejection of the second request then changes the state: it writes its message and
  turns the status to error, which is entered from success, with the data still in
  place.
\<close>

theorem stale_rejection_counterexample:
  "status (run [Effect, Effect, Fulfil (Some leanne)] mount_UserProfile) = Success
 \<and> run [Effect, Effect, Fulfil (Some leanne), Reject] mount_UserProfile
     \<noteq> run [Effect, Effect, Fulfil (Some leanne)] mount_UserProfile
 \<and> status (run [Effect, Effect, Fulfil (Some leanne), Reject] mount_UserProfile) = Error
 \<and> user (run [Effect, Effect, Fulfil (Some leanne), Reject] mount_UserProfile) = Some leanne"
  by (simp add: status_def truthy_def mount_UserProfile_def fetchUser_begin_def
      fetchUser_fulfilled_def fetchUser_rejected_def)

text \<open>
  C5, amended. In a run of one fetch per mount (the effect runs once and its request
  settles once) every event meets the status loading. The fulfilment then stores the
  data and no message, and leads to success when the data is a record; the rejection
  stores the message, with no data, and leads to error. So in such a run success and
  error are entered from loading only, and no completion meets a state that is not
  loading.
\<close>

theorem completion_from_loading:
  assumes "one_fetch (es @ [e])"
  shows "status (run es mount_UserProfile) = Loading
       \<and> (case e of
            Effect \<Rightarrow> status (fire e (run es mount_UserProfile)) = Loading
          | Fulfil d \<Rightarrow>
              status (fire e (run es mount_UserProfile))
                = (case d of None \<Rightarrow> Idle | Some u \<Rightarrow> Success)
            \<and> user (fire e (run es mount_UserProfile)) = d
            \<and> error (fire e (run es mount_UserProfile)) = None
          | Reject \<Rightarrow>
              status (fire e (run es mount_UserProfile)) = Error
            \<and> user (fire e (run es mount_UserProfile)) = None
            \<and> error (fire e (run es mount_UserProfile)) = Some ''Failed to fetch user data'')"
proof -
  from assms consider "es = []" "e = Effect" | "es = [Effect]" "e \<noteq> Effect"
    using one_fetch_snoc by blast
  then show ?thesis
  proof cases
    case 1
    then show ?thesis
      by (simp add: status_def mount_UserProfile_def fetchUser_begin_def)
  next
    case 2
    then show ?thesis
      by (cases e)
         (auto simp: status_def truthy_def mount_UserProfile_def fetchUser_begin_def
            fetchUser_fulfilled_def fetchUser_rejected_def split: option.splits)
  qed
qed

text \<open>The witness is scenario E: the effect runs, then the request is fulfilled.\<close>

theorem completion_from_loading_witness:
  "status (run [Effect] mount_UserProfile) = Loading
 \<and> status (fire (Fulfil (Some leanne)) (run [Effect] mount_UserProfile)) = Success
 \<and> user (fire (Fulfil (Some leanne)) (run [Effect] mount_UserProfile)) = Some leanne
 \<and> error (fire (Fulfil (Some leanne)) (run [Effect] mount_UserProfile)) = None"
proof -
  have h: "one_fetch ([Effect] @ [Fulfil (Some leanne)])"
    by simp
  from completion_from_loading [OF h] show ?thesis
    by (simp del: fire.simps run.simps)
qed

text \<open>
  C6, as stated, fails: at the first render the status is loading, not idle; the three
  cells can hold loading together with an error message; and when the effect has run
  twice, a fulfilment followed by a rejection leaves the data and the message both in
  place.
\<close>

theorem mount_UserProfile_counterexample:
  "status mount_UserProfile = Loading
 \<and> loading \<lparr>user = None, loading = True, error = Some ''Failed to fetch user data''\<rparr>
 \<and> truthy (error \<lparr>user = None, loading = True, error = Some ''Failed to fetch user data''\<rparr>)
 \<and> user (run [Effect, Effect, Fulfil (Some leanne), Reject] mount_UserProfile) = Some leanne
 \<and> error (run [Effect, Effect, Fulfil (Some leanne), Reject] mount_UserProfile)
     = Some ''Failed to fetch user data''"
  by (simp add: status_def mount_UserProfile_def truthy_def fetchUser_begin_def
      fetchUser_fulfilled_def fetchUser_rejected_def)

text \<open>
  C6, amended. The screen starts with status loading. In every state of a run of one
  fetch per mount (the effect runs once and its request settles once), the data is
  present exactly when the status is success and the message is present exactly when
  the status is error, so never both, and neither while loading. The status is idle,
  with neither present, exactly after a fulfilment whose data is \<^verbatim>\<open>null\<close>.
\<close>

theorem run_payload_error_exclusive:
  assumes "one_fetch es"
  shows "status mount_UserProfile = Loading
       \<and> (user (run es mount_UserProfile) \<noteq> None
            \<longleftrightarrow> status (run es mount_UserProfile) = Success)
       \<and> (error (run es mount_UserProfile) \<noteq> None
            \<longleftrightarrow> status (run es mount_UserProfile) = Error)
       \<and> \<not> (user (run es mount_UserProfile) \<noteq> None \<and> error (run es mount_UserProfile) \<noteq> None)
       \<and> (status (run es mount_UserProfile) = Idle \<longleftrightarrow> es = [Effect, Fulfil None])"
proof -
  from assms consider "es = []" | "es = [Effect]" | d where "es = [Effect, Fulfil d]"
    | "es = [Effect, Reject]"
    using one_fetch_cases by blast
  then show ?thesis
  proof cases
    case 1
    then show ?thesis
      by (simp add: status_def mount_UserProfile_def)
  next
    case 2
    then show ?thesis
      by (simp add: status_def mount_UserProfile_def fetchUser_begin_def)
  next
    case 3
    then show ?thesis
      by (cases d)
         (simp_all add: status_def truthy_def mount_UserProfile_def fetchUser_begin_def
            fetchUser_fulfilled_def)
  next
    case 4
    then show ?thesis
      by (simp add: status_def truthy_def mount_UserProfile_def fetchUser_begin_def
          fetchUser_rejected_def)
  qed
qed

text \<open>The witness is scenario F up to the error: the effect runs, then the request is rejected.\<close>

theorem run_payload_error_exclusive_witness:
  "user (run [Effect, Reject] mount_UserProfile) = None
 \<and> error (run [Effect, Reject] mount_UserProfile) = Some ''Failed to fetch user data''
 \<and> status (run [Effect, Reject] mount_UserProfile) = Error"
proof -
  have h: "one_fetch [Effect, Reject]"
    by simp
  have e: "error (run [Effect, Reject] mount_UserProfile) = Some ''Failed to fetch user data''"
    by (simp add: fetchUser_rejected_def)
  from run_payload_error_exclusive [OF h] e show ?thesis
    by (simp del: run.simps)
qed

section \<open>Properties of the counter screen\<close>

lemma click_step_pos: "0 < step s \<Longrightarrow> 0 < step (click a s)"
  by (cases a) (auto simp: increment_def decrement_def reset_def handleStepChange_def Let_def)

lemma clicks_step_pos: "0 < step s \<Longrightarrow> 0 < step (clicks as s)"
  by (induction as arbitrary: s) (auto simp: click_step_pos)

lemma whole_pos: "v \<in> \<int> \<Longrightarrow> 0 < v \<Longrightarrow> 1 \<le> (v::real)"
  by (metis Ints_cases of_int_0_less_iff of_int_1_le_iff int_one_le_iff_zero_less)

lemma click_step_ge1: "1 \<le> step s \<Longrightarrow> whole_number a \<Longrightarrow> 1 \<le> step (click a s)"
  by (cases a)
     (auto simp: increment_def decrement_def reset_def handleStepChange_def Let_def whole_pos)

lemma clicks_step_ge1:
  "1 \<le> step s \<Longrightarrow> \<forall>a \<in> set as. whole_number a \<Longrightarrow> 1 \<le> step (clicks as s)"
  by (induction as arbitrary: s) (auto simp: click_step_ge1)

text \<open>
  C9, as stated, fails: the step field accepts a fraction, and \<^verbatim>\<open>handleStepChange\<close>
  stores every value above 0; after the input 0.5 the step is below 1.
\<close>

theorem handleStepChange_fraction_counterexample:
  "step (clicks [StepInput (1 / 2)] mount_Counter) < 1"
  by (simp add: handleStepChange_def)

text \<open>
  C9, amended. In every reachable state of the counter screen the step is above 0: the
  first step is 5, \<^verbatim>\<open>handleStepChange\<close> stores its argument when that is above 0 and 1
  otherwise, \<^verbatim>\<open>reset(true)\<close> stores 1, and nothing else writes the step. When every
  value entered into the step field is a whole number, the step is at least 1.
\<close>

theorem step_positive:
  "0 < step (clicks as mount_Counter)
 \<and> ((\<forall>a \<in> set as. whole_number a) \<longrightarrow> 1 \<le> step (clicks as mount_Counter))"
  by (simp add: clicks_step_pos clicks_step_ge1 mount_Counter_def)

theorem step_positive_witness:
  "0 < step (clicks [StepInput 3, Increment, StepInput (- 2), Reset, StepInput 7] mount_Counter)
 \<and> 1 \<le> step (clicks [StepInput 3, Increment, StepInput (- 2), Reset, StepInput 7]
               mount_Counter)"
  using step_positive [of "[StepInput 3, Increment, StepInput (- 2), Reset, StepInput 7]"]
  by simp

text \<open>
  C10. For every state, \<^verbatim>\<open>reset()\<close> and \<^verbatim>\<open>reset(false)\<close> set the count to 0 and change
  nothing else, so the step keeps its value; \<^verbatim>\<open>reset(true)\<close> sets the count to 0 and
  the step to 1, whatever the step was and although the first step is 5.
\<close>

theorem reset_frame:
  "reset None s = s\<lparr>count := 0\<rparr>
 \<and> reset (Some False) s = s\<lparr>count := 0\<rparr>
 \<and> count (reset None s) = 0
 \<and> step (reset None s) = step s
 \<and> reset (Some True) s = s\<lparr>count := 0, step := 1\<rparr>
 \<and> step (reset (Some True) s) = 1
 \<and> step mount_Counter = 5"
  by (simp add: reset_def mount_Counter_def)

end
